theory Spec2Isabelle
  imports Main
begin

section \<open>Values, exceptions and messages\<close>

text \<open>
  The services of \<^verbatim>\<open>app_meshed\<close> receive graph descriptions and execution
  inputs as untyped nested data (\<^verbatim>\<open>Dict\<close>), decoded from JSON. A mapping is an
  association list with string keys, looked up with \<open>map_of\<close>. Floating-point
  numbers are left out of the value type.
\<close>

datatype json =
    JNull
  | JBool bool
  | JInt int
  | JStr string
  | JList "json list"
  | JDict "(string \<times> json) list"

text \<open>
  The text of an exception is kept as a sequence of fragments, the way an
  f-string is written: literal text of the source, \<open>str()\<close> of a value
  substituted into it, \<open>repr()\<close> of a text (what \<open>str\<close> gives for a
  \<^verbatim>\<open>KeyError\<close>), and the text the Python runtime chooses for an error of a
  builtin operation.
\<close>

datatype builtin_error =
    NotSubscriptable json
  | NoAttribute json string
  | NotIterable json
  | Unhashable json
  | KeywordsNotStrings

datatype frag =
    Lit string
  | Fmt json
  | Repr "frag list"
  | Builtin builtin_error

type_synonym msg = "frag list"

text \<open>A string substituted into an f-string is its own text.\<close>

fun fmt :: "json \<Rightarrow> frag" where
  "fmt (JStr s) = Lit s"
| "fmt v = Fmt v"

abbreviation squote :: string where
  "squote \<equiv> [CHR 0x27]"

text \<open>
  Exceptions are instances of Python's \<^verbatim>\<open>Exception\<close>: the class, and the text
  \<open>str(e)\<close> returns. \<open>LibraryError\<close> stands for any other subclass of
  \<^verbatim>\<open>Exception\<close> that a library raises.
\<close>

datatype exn_class =
  KeyError | ValueError | TypeError | AttributeError | RuntimeError | LibraryError string

datatype exn = Exn exn_class msg

fun exn_class_of :: "exn \<Rightarrow> exn_class" where
  "exn_class_of (Exn c m) = c"

fun str_exn :: "exn \<Rightarrow> msg" where
  "str_exn (Exn c m) = m"

subsection \<open>Operations of the language on values\<close>

text \<open>\<^verbatim>\<open>d.get(key, default)\<close> on a mapping.\<close>

definition dict_get :: "(string \<times> json) list \<Rightarrow> string \<Rightarrow> json \<Rightarrow> json" where
  "dict_get d k dflt = (case map_of d k of Some v \<Rightarrow> v | None \<Rightarrow> dflt)"

text \<open>
  \<^verbatim>\<open>x[key]\<close> with a string key: a mapping raises \<^verbatim>\<open>KeyError(key)\<close> when the key
  is missing, every other value raises \<^verbatim>\<open>TypeError\<close>.
\<close>

fun subscript :: "json \<Rightarrow> string \<Rightarrow> exn + json" where
  "subscript (JDict d) k =
     (case map_of d k of
        Some v \<Rightarrow> Inr v
      | None \<Rightarrow> Inl (Exn KeyError [Repr [Lit k]]))"
| "subscript v k = Inl (Exn TypeError [Builtin (NotSubscriptable v)])"

text \<open>Truth value of \<^verbatim>\<open>not x\<close>.\<close>

fun truthy :: "json \<Rightarrow> bool" where
  "truthy JNull = False"
| "truthy (JBool b) = b"
| "truthy (JInt i) = (i \<noteq> 0)"
| "truthy (JStr s) = (s \<noteq> [])"
| "truthy (JList xs) = (xs \<noteq> [])"
| "truthy (JDict d) = (d \<noteq> [])"

text \<open>
  The items of \<^verbatim>\<open>for x in v\<close>: the elements of a list, the characters of a
  string, the keys of a mapping; anything else is not iterable.
\<close>

fun py_iter :: "json \<Rightarrow> exn + json list" where
  "py_iter (JList xs) = Inr xs"
| "py_iter (JStr s) = Inr (map (\<lambda>c. JStr [c]) s)"
| "py_iter (JDict d) = Inr (map (\<lambda>(k, v). JStr k) d)"
| "py_iter v = Inl (Exn TypeError [Builtin (NotIterable v)])"

text \<open>
  Keys of a Python \<^verbatim>\<open>dict\<close>: lists and mappings are unhashable; \<^verbatim>\<open>True\<close> and
  \<^verbatim>\<open>1\<close> (and \<^verbatim>\<open>False\<close> and \<^verbatim>\<open>0\<close>) are the same key. A \<^verbatim>\<open>dict\<close> built by
  the code is an association list in insertion order; assigning to a key that is
  already there replaces the value and keeps the place and the key object.
\<close>

fun hashable :: "json \<Rightarrow> bool" where
  "hashable (JList xs) = False"
| "hashable (JDict d) = False"
| "hashable v = True"

fun as_key :: "json \<Rightarrow> json" where
  "as_key (JBool b) = JInt (if b then 1 else 0)"
| "as_key v = v"

definition key_eq :: "json \<Rightarrow> json \<Rightarrow> bool" where
  "key_eq a b = (as_key a = as_key b)"

fun pydict_get :: "(json \<times> 'v) list \<Rightarrow> json \<Rightarrow> 'v option" where
  "pydict_get [] k = None"
| "pydict_get ((k', v) # d) k = (if key_eq k' k then Some v else pydict_get d k)"

fun pydict_set :: "(json \<times> 'v) list \<Rightarrow> json \<Rightarrow> 'v \<Rightarrow> (json \<times> 'v) list" where
  "pydict_set [] k v = [(k, v)]"
| "pydict_set ((k', v') # d) k v =
     (if key_eq k' k then (k', v) # d else (k', v') # pydict_set d k v)"

text \<open>
  \<^verbatim>\<open>f(**d)\<close>: every key of \<open>d\<close> must be a string, or the call raises
  \<^verbatim>\<open>TypeError\<close> before \<open>f\<close> runs.
\<close>

fun kwargs :: "(json \<times> 'v) list \<Rightarrow> exn + (string \<times> 'v) list" where
  "kwargs [] = Inr []"
| "kwargs ((JStr s, v) # d) =
     (case kwargs d of Inl e \<Rightarrow> Inl e | Inr kw \<Rightarrow> Inr ((s, v) # kw))"
| "kwargs ((k, v) # d) = Inl (Exn TypeError [Builtin KeywordsNotStrings])"

text \<open>\<^verbatim>\<open>x.get(key, default)\<close>: only a mapping has the method.\<close>

fun get_method :: "json \<Rightarrow> string \<Rightarrow> json \<Rightarrow> exn + json" where
  "get_method (JDict d) k dflt = Inr (dict_get d k dflt)"
| "get_method v k dflt = Inl (Exn AttributeError [Builtin (NoAttribute v ''get'')])"

section \<open>The function registry\<close>

text \<open>
  \<^verbatim>\<open>function_registry.py\<close>. A registered callable is seen by the registry only
  through introspection, which is the work of \<^verbatim>\<open>i2\<close> and \<^verbatim>\<open>inspect\<close>: what
  \<^verbatim>\<open>Sig(func)\<close> returns or raises, the docstring and the module. Of a signature
  the registry reads \<^verbatim>\<open>sig.names\<close>, \<^verbatim>\<open>sig.params[param_name]\<close>, which gives a
  parameter or raises, and \<^verbatim>\<open>sig.return_annotation\<close>.
\<close>

datatype annotation = NoAnnotation | NamedType string | OtherAnnotation string

text \<open>
  The default of a parameter: none (\<^verbatim>\<open>inspect.Parameter.empty\<close>), a value, or an
  object for which \<^verbatim>\<open>default != inspect.Parameter.empty\<close> has no truth value (the
  comparison, or the test of its result, raises).
\<close>

datatype default_value = Empty | Default json | Uncomparable exn

record param =
  p_annotation :: annotation
  p_default :: default_value
  p_kind :: string

record signature =
  sig_names :: "string list"
  sig_params :: "string \<Rightarrow> exn + param"
  sig_return_annotation :: annotation

record callable =
  Sig :: "exn + signature"
  getdoc :: "string option"
  module_attr :: "string option"

record ParameterInfo =
  pi_name :: string
  pi_annotation :: string
  pi_default :: json
  pi_has_default :: bool
  pi_kind :: string

record FunctionMetadata =
  fm_name :: string
  fm_doc :: "string option"
  fm_parameters :: "ParameterInfo list"
  fm_return_annotation :: string
  fm_module :: "string option"

record FunctionRegistry =
  reg_functions :: "string \<rightharpoonup> callable"
  reg_metadata :: "string \<rightharpoonup> FunctionMetadata"

definition init_registry :: FunctionRegistry where
  "init_registry = \<lparr>reg_functions = Map.empty, reg_metadata = Map.empty\<rparr>"

fun annotation_str :: "annotation \<Rightarrow> string" where
  "annotation_str NoAnnotation = ''Any''"
| "annotation_str (NamedType n) = n"
| "annotation_str (OtherAnnotation s) = s"

text \<open>The body of the loop of \<^verbatim>\<open>_extract_metadata\<close>, for one parameter.\<close>

fun parameter_info :: "string \<Rightarrow> param \<Rightarrow> exn + ParameterInfo" where
  "parameter_info param_name param =
     (case p_default param of
        Uncomparable e \<Rightarrow> Inl e
      | Empty \<Rightarrow>
          Inr \<lparr>pi_name = param_name,
               pi_annotation = annotation_str (p_annotation param),
               pi_default = JNull,
               pi_has_default = False,
               pi_kind = p_kind param\<rparr>
      | Default v \<Rightarrow>
          Inr \<lparr>pi_name = param_name,
               pi_annotation = annotation_str (p_annotation param),
               pi_default = v,
               pi_has_default = True,
               pi_kind = p_kind param\<rparr>)"

fun extract_parameters :: "signature \<Rightarrow> string list \<Rightarrow> exn + ParameterInfo list" where
  "extract_parameters sig [] = Inr []"
| "extract_parameters sig (param_name # names) =
     (case sig_params sig param_name of
        Inl e \<Rightarrow> Inl e
      | Inr param \<Rightarrow>
     (case parameter_info param_name param of
        Inl e \<Rightarrow> Inl e
      | Inr info \<Rightarrow>
     (case extract_parameters sig names of
        Inl e \<Rightarrow> Inl e
      | Inr infos \<Rightarrow> Inr (info # infos))))"

definition extract_metadata :: "string \<Rightarrow> callable \<Rightarrow> exn + FunctionMetadata" where
  "extract_metadata name func =
     (case Sig func of
        Inl e \<Rightarrow> Inl e
      | Inr sig \<Rightarrow>
     (case extract_parameters sig (sig_names sig) of
        Inl e \<Rightarrow> Inl e
      | Inr parameters \<Rightarrow>
          Inr \<lparr>fm_name = name,
               fm_doc = getdoc func,
               fm_parameters = parameters,
               fm_return_annotation = annotation_str (sig_return_annotation sig),
               fm_module = module_attr func\<rparr>))"

text \<open>
  A method that mutates the registry returns the exception it raised, if any,
  and the registry as it is left: a raise does not undo an assignment made
  before it.
\<close>

definition register ::
  "FunctionRegistry \<Rightarrow> string \<Rightarrow> callable \<Rightarrow> bool \<Rightarrow> exn option \<times> FunctionRegistry" where
  "register self name func override =
     (if reg_functions self name \<noteq> None \<and> \<not> override then
        (Some (Exn ValueError
           [Lit (''Function '' @ squote), Lit name,
            Lit (squote @ '' already registered. Use override=True to replace.'')]),
         self)
      else
        let self1 = self\<lparr>reg_functions := (reg_functions self)(name \<mapsto> func)\<rparr>
        in case extract_metadata name func of
             Inl e \<Rightarrow> (Some e, self1)
           | Inr m \<Rightarrow> (None, self1\<lparr>reg_metadata := (reg_metadata self1)(name \<mapsto> m)\<rparr>))"

definition not_found :: "json \<Rightarrow> exn" where
  "not_found name =
     Exn KeyError
       [Repr [Lit (''Function '' @ squote), fmt name, Lit (squote @ '' not found in registry'')]]"

text \<open>
  \<^verbatim>\<open>get_function\<close> and \<^verbatim>\<open>get_metadata\<close> are called with whatever the caller
  has; the tables are keyed by strings, so \<^verbatim>\<open>name not in table\<close> raises
  \<^verbatim>\<open>TypeError\<close> for an unhashable name and is true for every other name that
  is not a registered string.
\<close>

fun table_lookup :: "(string \<rightharpoonup> 'v) \<Rightarrow> json \<Rightarrow> 'v option" where
  "table_lookup t (JStr s) = t s"
| "table_lookup t v = None"

definition get_function :: "FunctionRegistry \<Rightarrow> json \<Rightarrow> exn + callable" where
  "get_function self name =
     (if \<not> hashable name then Inl (Exn TypeError [Builtin (Unhashable name)])
      else case table_lookup (reg_functions self) name of
             None \<Rightarrow> Inl (not_found name)
           | Some f \<Rightarrow> Inr f)"

definition get_metadata :: "FunctionRegistry \<Rightarrow> json \<Rightarrow> exn + FunctionMetadata" where
  "get_metadata self name =
     (if \<not> hashable name then Inl (Exn TypeError [Builtin (Unhashable name)])
      else case table_lookup (reg_metadata self) name of
             None \<Rightarrow> Inl (not_found name)
           | Some m \<Rightarrow> Inr m)"

definition unregister :: "FunctionRegistry \<Rightarrow> string \<Rightarrow> exn option \<times> FunctionRegistry" where
  "unregister self name =
     (if reg_functions self name = None then (Some (not_found (JStr name)), self)
      else
        let self1 = self\<lparr>reg_functions := (reg_functions self)(name := None)\<rparr>
        in if reg_metadata self1 name = None then (Some (Exn KeyError [Repr [Lit name]]), self1)
           else (None, self1\<lparr>reg_metadata := (reg_metadata self1)(name := None)\<rparr>))"

section \<open>The DAG service\<close>

text \<open>
  \<^verbatim>\<open>dag_service.py\<close>. The graph itself is built and run by the \<^verbatim>\<open>meshed\<close>
  library, which the service imports: \<^verbatim>\<open>DAG(funcs, **binds)\<close> and
  \<^verbatim>\<open>dag(**inputs)\<close>. Both are parameters of the model, each returning its value
  or the exception it raises; \<open>'d\<close> is the type of the library's graph objects.
\<close>

record 'd meshed =
  DAG :: "(json \<times> callable) list \<Rightarrow> (string \<times> (json \<times> json) list) list \<Rightarrow> exn + 'd"
  call_dag :: "'d \<Rightarrow> (string \<times> json) list \<Rightarrow> exn + json"

text \<open>
  The first loop of \<^verbatim>\<open>json_to_dag\<close>: \<^verbatim>\<open>funcs[node_id] = func\<close> for every node.
  Only the registry lookup and the assignment are inside the \<^verbatim>\<open>try\<close>, and only a
  \<^verbatim>\<open>KeyError\<close> is turned into a \<^verbatim>\<open>ValueError\<close>.
\<close>

definition unknown_function :: "json \<Rightarrow> json \<Rightarrow> exn" where
  "unknown_function func_name node_id =
     Exn ValueError
       [Lit (''Function '' @ squote), fmt func_name,
        Lit (squote @ '' not found in registry for node '' @ squote), fmt node_id,
        Lit squote]"

fun build_funcs ::
  "FunctionRegistry \<Rightarrow> json list \<Rightarrow> (json \<times> callable) list \<Rightarrow> exn + (json \<times> callable) list" where
  "build_funcs reg [] funcs = Inr funcs"
| "build_funcs reg (node # nodes) funcs =
     (case subscript node ''id'' of
        Inl e \<Rightarrow> Inl e
      | Inr node_id \<Rightarrow>
     (case subscript node ''function'' of
        Inl e \<Rightarrow> Inl e
      | Inr func_name \<Rightarrow>
     (case get_function reg func_name of
        Inl e \<Rightarrow>
          if exn_class_of e = KeyError then Inl (unknown_function func_name node_id)
          else Inl e
      | Inr func \<Rightarrow>
          if hashable node_id then build_funcs reg nodes (pydict_set funcs node_id func)
          else Inl (Exn TypeError [Builtin (Unhashable node_id)]))))"

text \<open>
  The second loop: \<^verbatim>\<open>binds[target][target_input] = source\<close> for every edge, the
  inner mapping being created when the target is new.
\<close>

definition target_input_of :: "json \<Rightarrow> exn + json" where
  "target_input_of edge =
     (case get_method edge ''sourceOutput'' (JStr ''value'') of
        Inl e \<Rightarrow> Inl e
      | Inr dflt \<Rightarrow> get_method edge ''targetInput'' dflt)"

definition bind_edge ::
  "(json \<times> (json \<times> json) list) list \<Rightarrow> json \<Rightarrow> exn + (json \<times> (json \<times> json) list) list" where
  "bind_edge binds edge =
     (case subscript edge ''source'' of
        Inl e \<Rightarrow> Inl e
      | Inr source \<Rightarrow>
     (case subscript edge ''target'' of
        Inl e \<Rightarrow> Inl e
      | Inr target \<Rightarrow>
     (case target_input_of edge of
        Inl e \<Rightarrow> Inl e
      | Inr target_input \<Rightarrow>
          if \<not> hashable target then Inl (Exn TypeError [Builtin (Unhashable target)])
          else
            let inner = (case pydict_get binds target of None \<Rightarrow> [] | Some m \<Rightarrow> m)
            in if \<not> hashable target_input
               then Inl (Exn TypeError [Builtin (Unhashable target_input)])
               else Inr (pydict_set binds target (pydict_set inner target_input source)))))"

fun build_binds ::
  "json list \<Rightarrow> (json \<times> (json \<times> json) list) list \<Rightarrow> exn + (json \<times> (json \<times> json) list) list" where
  "build_binds [] binds = Inr binds"
| "build_binds (edge # edges) binds =
     (case bind_edge binds edge of
        Inl e \<Rightarrow> Inl e
      | Inr binds' \<Rightarrow> build_binds edges binds')"

text \<open>\<^verbatim>\<open>DAG(funcs, **binds)\<close> inside the \<^verbatim>\<open>try\<close> that ends \<^verbatim>\<open>json_to_dag\<close>.\<close>

definition create_dag ::
  "'d meshed \<Rightarrow> (json \<times> callable) list \<Rightarrow> (json \<times> (json \<times> json) list) list \<Rightarrow> exn + 'd" where
  "create_dag lib funcs binds =
     (case (case kwargs binds of Inl e \<Rightarrow> Inl e | Inr kw \<Rightarrow> DAG lib funcs kw) of
        Inl e \<Rightarrow> Inl (Exn ValueError (Lit ''Error creating DAG: '' # str_exn e))
      | Inr dag \<Rightarrow> Inr dag)"

definition json_to_dag ::
  "FunctionRegistry \<Rightarrow> 'd meshed \<Rightarrow> (string \<times> json) list \<Rightarrow> exn + 'd" where
  "json_to_dag reg lib dag_config =
     (let name = dict_get dag_config ''name'' (JStr ''unnamed_dag'');
          nodes = dict_get dag_config ''nodes'' (JList []);
          edges = dict_get dag_config ''edges'' (JList []);
          params = dict_get dag_config ''params'' (JDict [])
      in if \<not> truthy nodes then Inl (Exn ValueError [Lit ''DAG must have at least one node''])
         else
           case py_iter nodes of
             Inl e \<Rightarrow> Inl e
           | Inr ns \<Rightarrow>
          (case build_funcs reg ns [] of
             Inl e \<Rightarrow> Inl e
           | Inr funcs \<Rightarrow>
          (case py_iter edges of
             Inl e \<Rightarrow> Inl e
           | Inr es \<Rightarrow>
          (case build_binds es [] of
             Inl e \<Rightarrow> Inl e
           | Inr binds \<Rightarrow> create_dag lib funcs binds))))"

definition execute_dag :: "'d meshed \<Rightarrow> 'd \<Rightarrow> (string \<times> json) list \<Rightarrow> exn + json" where
  "execute_dag lib dag inputs =
     (case call_dag lib dag inputs of
        Inl e \<Rightarrow> Inl (Exn RuntimeError (Lit ''DAG execution failed: '' # str_exn e))
      | Inr result \<Rightarrow> Inr result)"

text \<open>
  The mapping \<^verbatim>\<open>execute_from_config\<close> returns: its values are values of the
  description or of the graph, and the text of an exception.
\<close>

datatype field = Val json | Text msg

definition error_result :: "exn \<Rightarrow> (string \<times> json) list \<Rightarrow> (string \<times> field) list" where
  "error_result e dag_config =
     [(''status'', Val (JStr ''error'')),
      (''error'', Text (str_exn e)),
      (''dag_name'', Val (dict_get dag_config ''name'' (JStr ''unnamed'')))]"

definition execute_from_config ::
  "FunctionRegistry \<Rightarrow> 'd meshed \<Rightarrow> (string \<times> json) list \<Rightarrow> (string \<times> json) list
     \<Rightarrow> (string \<times> field) list" where
  "execute_from_config reg lib dag_config inputs =
     (case json_to_dag reg lib dag_config of
        Inl e \<Rightarrow> error_result e dag_config
      | Inr dag \<Rightarrow>
     (case execute_dag lib dag inputs of
        Inl e \<Rightarrow> error_result e dag_config
      | Inr result \<Rightarrow>
          [(''status'', Val (JStr ''success'')),
           (''result'', Val result),
           (''dag_name'', Val (dict_get dag_config ''name'' (JStr ''unnamed'')))]))"

section \<open>Predicates and inputs used by the statements\<close>

text \<open>
  A node entry of the form the service expects: a mapping with an \<^verbatim>\<open>id\<close> and a
  \<^verbatim>\<open>function\<close>, both usable as keys.
\<close>

definition well_formed_node :: "json \<Rightarrow> bool" where
  "well_formed_node n =
     (case n of
        JDict d \<Rightarrow>
          (case (map_of d ''id'', map_of d ''function'') of
             (Some i, Some f) \<Rightarrow> hashable i \<and> hashable f
           | _ \<Rightarrow> False)
      | _ \<Rightarrow> False)"

text \<open>A node entry whose \<^verbatim>\<open>function\<close> is not a name of the registry.\<close>

definition unresolvable :: "FunctionRegistry \<Rightarrow> json \<Rightarrow> bool" where
  "unresolvable reg n =
     (case n of
        JDict d \<Rightarrow>
          (case map_of d ''function'' of
             Some f \<Rightarrow> table_lookup (reg_functions reg) f = None
           | None \<Rightarrow> False)
      | _ \<Rightarrow> False)"

text \<open>
  The parameter name an edge binds, written out as the three cases of
  \<^verbatim>\<open>edge.get("targetInput", edge.get("sourceOutput", "value"))\<close>.
\<close>

definition target_param :: "(string \<times> json) list \<Rightarrow> json" where
  "target_param e =
     (case map_of e ''targetInput'' of
        Some t \<Rightarrow> t
      | None \<Rightarrow> (case map_of e ''sourceOutput'' of Some s \<Rightarrow> s | None \<Rightarrow> JStr ''value''))"

text \<open>
  An edge entry the loop over the edges accepts: a mapping with a \<^verbatim>\<open>source\<close> and a
  \<^verbatim>\<open>target\<close>, the target and the bound parameter usable as keys.
\<close>

definition well_formed_edge :: "json \<Rightarrow> bool" where
  "well_formed_edge edge =
     (case edge of
        JDict e \<Rightarrow>
          (case (map_of e ''source'', map_of e ''target'') of
             (Some s, Some t) \<Rightarrow> hashable t \<and> hashable (target_param e)
           | _ \<Rightarrow> False)
      | _ \<Rightarrow> False)"

text \<open>
  What one edge entry adds to the bindings, in the words of the description format:
  under the edge's target, the parameter named by \<^verbatim>\<open>targetInput\<close> if the entry has
  that key, else by \<^verbatim>\<open>sourceOutput\<close> if it has that key, else \<^verbatim>\<open>"value"\<close>, is
  bound to the edge's source; nothing else changes. The bindings of a list of
  edges are those of its entries in order, from none.
\<close>

definition bind_one ::
  "(json \<times> (json \<times> json) list) list \<Rightarrow> (string \<times> json) list
     \<Rightarrow> (json \<times> (json \<times> json) list) list" where
  "bind_one binds e =
     (case (map_of e ''source'', map_of e ''target'') of
        (Some source, Some target) \<Rightarrow>
          pydict_set binds target
            (pydict_set (case pydict_get binds target of None \<Rightarrow> [] | Some inner \<Rightarrow> inner)
               (case map_of e ''targetInput'' of
                  Some t \<Rightarrow> t
                | None \<Rightarrow> (case map_of e ''sourceOutput'' of Some s \<Rightarrow> s | None \<Rightarrow> JStr ''value''))
               source)
      | _ \<Rightarrow> binds)"

definition bindings_of_edges ::
  "(string \<times> json) list list \<Rightarrow> (json \<times> (json \<times> json) list) list" where
  "bindings_of_edges es = foldl bind_one [] es"

text \<open>
  A life of the registry: calls of \<^verbatim>\<open>register\<close> and \<^verbatim>\<open>unregister\<close> on a new
  registry, the caller going on after a call that raised.
\<close>

datatype registry_op = Register string callable bool | Unregister string

fun apply_op :: "FunctionRegistry \<Rightarrow> registry_op \<Rightarrow> FunctionRegistry" where
  "apply_op self (Register name func override) = snd (register self name func override)"
| "apply_op self (Unregister name) = snd (unregister self name)"

definition run_ops :: "registry_op list \<Rightarrow> FunctionRegistry" where
  "run_ops ops = foldl apply_op init_registry ops"

text \<open>The call is not a \<^verbatim>\<open>register\<close> in which \<^verbatim>\<open>_extract_metadata\<close> raises.\<close>

fun metadata_extracted :: "registry_op \<Rightarrow> bool" where
  "metadata_extracted (Register name func override) =
     (case extract_metadata name func of Inl e \<Rightarrow> False | Inr m \<Rightarrow> True)"
| "metadata_extracted (Unregister name) = True"

definition same_names :: "FunctionRegistry \<Rightarrow> bool" where
  "same_names self = (dom (reg_functions self) = dom (reg_metadata self))"

subsection \<open>Inputs of the tests and examples\<close>

text \<open>\<^verbatim>\<open>def add(a: int, b: int) -> int\<close> of \<^verbatim>\<open>test_function_registry.py\<close>.\<close>

definition add_func :: callable where
  "add_func =
     \<lparr>Sig = Inr \<lparr>sig_names = [''a'', ''b''],
                 sig_params =
                   (\<lambda>n. if n = ''a'' \<or> n = ''b''
                        then Inr \<lparr>p_annotation = NamedType ''int'', p_default = Empty,
                                  p_kind = ''POSITIONAL_OR_KEYWORD''\<rparr>
                        else Inl (Exn KeyError [Repr [Lit n]])),
                 sig_return_annotation = NamedType ''int''\<rparr>,
      getdoc = Some ''Add two numbers.'',
      module_attr = Some ''test_function_registry''\<rparr>"

text \<open>\<^verbatim>\<open>def temp_func(): pass\<close> of the same file.\<close>

definition temp_func :: callable where
  "temp_func =
     \<lparr>Sig = Inr \<lparr>sig_names = [],
                 sig_params = (\<lambda>n. Inl (Exn KeyError [Repr [Lit n]])),
                 sig_return_annotation = NoAnnotation\<rparr>,
      getdoc = None,
      module_attr = Some ''test_function_registry''\<rparr>"

text \<open>
  A function of one parameter whose default cannot be compared:
  \<^verbatim>\<open>
  class NoCompare:
      def __ne__(self, other): raise TypeError("cannot compare")
  def f(x=NoCompare()): return x
  \<close>
  A NumPy array of several elements as a default does the same, with the
  \<^verbatim>\<open>ValueError\<close> of its truth value.
\<close>

definition uncomparable_default_func :: callable where
  "uncomparable_default_func =
     \<lparr>Sig = Inr \<lparr>sig_names = [''x''],
                 sig_params =
                   (\<lambda>n. if n = ''x''
                        then Inr \<lparr>p_annotation = NoAnnotation,
                                  p_default = Uncomparable (Exn TypeError [Lit ''cannot compare'']),
                                  p_kind = ''POSITIONAL_OR_KEYWORD''\<rparr>
                        else Inl (Exn KeyError [Repr [Lit n]])),
                 sig_return_annotation = NoAnnotation\<rparr>,
      getdoc = None,
      module_attr = Some ''__main__''\<rparr>"

definition registry_with_add :: FunctionRegistry where
  "registry_with_add = run_ops [Register ''add'' add_func False]"

text \<open>\<^verbatim>\<open>def multiply(a: float, b: float) -> float\<close>, and a registry with both.\<close>

definition multiply_func :: callable where
  "multiply_func =
     \<lparr>Sig = Inr \<lparr>sig_names = [''a'', ''b''],
                 sig_params =
                   (\<lambda>n. if n = ''a'' \<or> n = ''b''
                        then Inr \<lparr>p_annotation = NamedType ''float'', p_default = Empty,
                                  p_kind = ''POSITIONAL_OR_KEYWORD''\<rparr>
                        else Inl (Exn KeyError [Repr [Lit n]])),
                 sig_return_annotation = NamedType ''float''\<rparr>,
      getdoc = Some ''Multiply two numbers.'',
      module_attr = Some ''test_function_registry''\<rparr>"

definition registry_with_add_multiply :: FunctionRegistry where
  "registry_with_add_multiply =
     run_ops [Register ''add'' add_func False, Register ''multiply'' multiply_func False]"

text \<open>
  A stand-in for the library, to run the service on concrete inputs: it accepts
  every graph, keeps what it was given, and returns \<^verbatim>\<open>None\<close> when called. It says
  nothing about what \<^verbatim>\<open>meshed\<close> does.
\<close>

definition stub_lib ::
  "((json \<times> callable) list \<times> (string \<times> (json \<times> json) list) list) meshed" where
  "stub_lib = \<lparr>DAG = (\<lambda>funcs kw. Inr (funcs, kw)), call_dag = (\<lambda>dag inputs. Inr JNull)\<rparr>"

text \<open>\<^verbatim>\<open>create_simple_dag_example()\<close>, and the same with another \<^verbatim>\<open>params\<close>.\<close>

definition simple_dag :: "(string \<times> json) list" where
  "simple_dag =
     [(''name'', JStr ''simple_add_dag''),
      (''nodes'', JList [JDict [(''id'', JStr ''add_node''), (''function'', JStr ''add''),
                                 (''output_name'', JStr ''result'')]]),
      (''edges'', JList []),
      (''params'', JDict [])]"

definition simple_dag_with_params :: "(string \<times> json) list" where
  "simple_dag_with_params =
     [(''name'', JStr ''simple_add_dag''),
      (''nodes'', JList [JDict [(''id'', JStr ''add_node''), (''function'', JStr ''add''),
                                 (''output_name'', JStr ''result'')]]),
      (''edges'', JList []),
      (''params'', JDict [(''add_node'', JDict [(''a'', JInt 5), (''b'', JInt 3)])])]"

text \<open>The descriptions of \<^verbatim>\<open>test_dag_service.py\<close> that must be rejected.\<close>

definition empty_dag :: "(string \<times> json) list" where
  "empty_dag = [(''name'', JStr ''empty_dag''), (''nodes'', JList []), (''edges'', JList [])]"

definition invalid_dag :: "(string \<times> json) list" where
  "invalid_dag =
     [(''name'', JStr ''invalid_dag''),
      (''nodes'', JList [JDict [(''id'', JStr ''node1''), (''function'', JStr ''nonexistent'')]]),
      (''edges'', JList [])]"

definition error_dag :: "(string \<times> json) list" where
  "error_dag =
     [(''name'', JStr ''error_dag''),
      (''nodes'', JList [JDict [(''id'', JStr ''node1''), (''function'', JStr ''nonexistent'')]]),
      (''edges'', JList [])]"

text \<open>A description without a name, whose only node entry has no \<^verbatim>\<open>id\<close>.\<close>

definition node_without_id :: "(string \<times> json) list" where
  "node_without_id = [(''nodes'', JList [JDict [(''function'', JStr ''add'')]])]"

text \<open>
  The edge of \<^verbatim>\<open>create_chained_dag_example()\<close>, the same without
  \<^verbatim>\<open>targetInput\<close>, and the same without \<^verbatim>\<open>sourceOutput\<close> either.
\<close>

definition chained_edge :: "(string \<times> json) list" where
  "chained_edge =
     [(''source'', JStr ''add_step''), (''target'', JStr ''multiply_step''),
      (''sourceOutput'', JStr ''sum''), (''targetInput'', JStr ''a'')]"

definition edge_without_target_input :: "(string \<times> json) list" where
  "edge_without_target_input =
     [(''source'', JStr ''add_step''), (''target'', JStr ''multiply_step''),
      (''sourceOutput'', JStr ''sum'')]"

definition bare_edge :: "(string \<times> json) list" where
  "bare_edge = [(''source'', JStr ''add_step''), (''target'', JStr ''multiply_step'')]"

text \<open>\<^verbatim>\<open>create_chained_dag_example()\<close>.\<close>

definition chained_dag :: "(string \<times> json) list" where
  "chained_dag =
     [(''name'', JStr ''chained_operations''),
      (''nodes'',
       JList [JDict [(''id'', JStr ''add_step''), (''function'', JStr ''add''),
                     (''output_name'', JStr ''sum'')],
              JDict [(''id'', JStr ''multiply_step''), (''function'', JStr ''multiply''),
                     (''output_name'', JStr ''product'')]]),
      (''edges'', JList [JDict chained_edge]),
      (''params'', JDict [])]"

section \<open>Properties of the language operations\<close>

lemma key_eq_refl: "key_eq k k"
  by (simp add: key_eq_def)

lemma pydict_get_key_eq: "key_eq a b \<Longrightarrow> pydict_get d a = pydict_get d b"
  by (induction d) (auto simp: key_eq_def)

lemma pydict_get_set:
  "pydict_get (pydict_set d k v) q = (if key_eq k q then Some v else pydict_get d q)"
  by (induction d) (auto simp: key_eq_def)

section \<open>The builder\<close>

subsection \<open>An empty node list\<close>

text \<open>
  Claim C7. A description whose \<^verbatim>\<open>nodes\<close> is the empty list (or is absent, the
  default being the empty list) is rejected by \<^verbatim>\<open>json_to_dag\<close> with
  \<^verbatim>\<open>ValueError("DAG must have at least one node")\<close>, whatever its name, its edges
  and its params are; no graph is returned.
\<close>

theorem json_to_dag_empty_nodes:
  assumes "map_of dag_config ''nodes'' = Some (JList []) \<or> map_of dag_config ''nodes'' = None"
  shows "json_to_dag reg lib dag_config =
           Inl (Exn ValueError [Lit ''DAG must have at least one node''])"
  using assms by (auto simp: json_to_dag_def dict_get_def)

theorem json_to_dag_empty_nodes_witness:
  "(map_of empty_dag ''nodes'' = Some (JList []) \<or> map_of empty_dag ''nodes'' = None) \<and>
   json_to_dag registry_with_add stub_lib empty_dag =
     Inl (Exn ValueError [Lit ''DAG must have at least one node''])"
proof -
  have h: "map_of empty_dag ''nodes'' = Some (JList []) \<or> map_of empty_dag ''nodes'' = None"
    by (simp add: empty_dag_def)
  from json_to_dag_empty_nodes[OF h] h show ?thesis
    by blast
qed

subsection \<open>The params field\<close>

text \<open>
  Claim C8. Two descriptions that agree on every field but \<^verbatim>\<open>params\<close> give the
  same outcome of \<^verbatim>\<open>json_to_dag\<close>, the same graph or the same exception: the
  field is read and not used.
\<close>

theorem json_to_dag_ignores_params:
  assumes "\<forall>k. k \<noteq> ''params'' \<longrightarrow> map_of c1 k = map_of c2 k"
  shows "json_to_dag reg lib c1 = json_to_dag reg lib c2"
proof -
  have "dict_get c1 ''nodes'' d = dict_get c2 ''nodes'' d"
       "dict_get c1 ''edges'' d = dict_get c2 ''edges'' d" for d
    using assms by (simp_all add: dict_get_def)
  then show ?thesis
    by (simp add: json_to_dag_def)
qed

text \<open>
  The simple example with and without parameter overrides: the same graph, the one
  function under its node's id and no bindings.
\<close>

theorem json_to_dag_ignores_params_witness:
  "map_of simple_dag ''params'' \<noteq> map_of simple_dag_with_params ''params'' \<and>
   json_to_dag registry_with_add stub_lib simple_dag =
     json_to_dag registry_with_add stub_lib simple_dag_with_params \<and>
   json_to_dag registry_with_add stub_lib simple_dag_with_params =
     Inr ([(JStr ''add_node'', add_func)], [])"
proof -
  have h: "\<forall>k. k \<noteq> ''params'' \<longrightarrow> map_of simple_dag k = map_of simple_dag_with_params k"
    by (simp add: simple_dag_def simple_dag_with_params_def)
  have d: "map_of simple_dag ''params'' \<noteq> map_of simple_dag_with_params ''params''"
    by (simp add: simple_dag_def simple_dag_with_params_def)
  have "get_function registry_with_add (JStr ''add'') = Inr add_func"
    by (simp add: get_function_def registry_with_add_def run_ops_def register_def
          init_registry_def extract_metadata_def add_func_def Let_def)
  then have v: "json_to_dag registry_with_add stub_lib simple_dag_with_params =
                  Inr ([(JStr ''add_node'', add_func)], [])"
    by (simp add: json_to_dag_def simple_dag_with_params_def dict_get_def create_dag_def
          stub_lib_def)
  from json_to_dag_ignores_params[OF h, of registry_with_add stub_lib] d v show ?thesis
    by simp
qed

subsection \<open>The parameter an edge binds\<close>

lemma target_input_of_dict: "target_input_of (JDict e) = Inr (target_param e)"
  by (simp add: target_input_of_def target_param_def dict_get_def split: option.splits)

lemma bind_edge_binding:
  assumes "bind_edge binds (JDict e) = Inr binds'"
  shows "\<exists>source target inner.
           map_of e ''source'' = Some source \<and>
           map_of e ''target'' = Some target \<and>
           pydict_get binds' target = Some inner \<and>
           pydict_get inner (target_param e) = Some source"
  using assms
  by (auto simp: bind_edge_def target_input_of_dict pydict_get_set key_eq_refl Let_def
           split: option.splits if_splits)

text \<open>A later edge replaces or adds bindings; it removes none.\<close>

lemma bind_edge_keeps:
  assumes "bind_edge binds edge = Inr binds'"
    and "pydict_get binds t = Some inner" and "pydict_get inner p = Some s"
  shows "\<exists>inner' s'. pydict_get binds' t = Some inner' \<and> pydict_get inner' p = Some s'"
proof -
  from assms(1) obtain source target target_input where
    e: "subscript edge ''source'' = Inr source" "subscript edge ''target'' = Inr target"
       "target_input_of edge = Inr target_input"
       "binds' = pydict_set binds target
          (pydict_set (case pydict_get binds target of None \<Rightarrow> [] | Some m \<Rightarrow> m)
             target_input source)"
    by (auto simp: bind_edge_def Let_def split: sum.splits if_splits)
  show ?thesis
  proof (cases "key_eq target t")
    case True
    then have "pydict_get binds target = Some inner"
      using assms(2) pydict_get_key_eq by metis
    with e True assms(3) show ?thesis
      by (simp add: pydict_get_set)
  next
    case False
    with e assms(2,3) show ?thesis
      by (simp add: pydict_get_set)
  qed
qed

lemma build_binds_keeps:
  assumes "build_binds es binds = Inr binds'"
    and "pydict_get binds t = Some inner" and "pydict_get inner p = Some s"
  shows "\<exists>inner' s'. pydict_get binds' t = Some inner' \<and> pydict_get inner' p = Some s'"
  using assms
proof (induction es arbitrary: binds inner s)
  case Nil
  then show ?case by simp
next
  case (Cons edge es)
  from Cons.prems(1) obtain mid where
    mid: "bind_edge binds edge = Inr mid" "build_binds es mid = Inr binds'"
    by (auto split: sum.splits)
  from bind_edge_keeps[OF mid(1) Cons.prems(2,3)] obtain inner1 s1 where
    "pydict_get mid t = Some inner1" "pydict_get inner1 p = Some s1"
    by blast
  with Cons.IH[OF mid(2)] show ?case by blast
qed

lemma build_binds_append:
  "build_binds (xs @ ys) binds =
     (case build_binds xs binds of Inl e \<Rightarrow> Inl e | Inr mid \<Rightarrow> build_binds ys mid)"
  by (induction xs arbitrary: binds) (auto split: sum.splits)

text \<open>
  On an edge entry with a source and a target, the loop does what the description
  format says, and nothing else; so does the whole loop on a list of such entries.
\<close>

lemma bind_edge_exact:
  assumes "well_formed_edge (JDict e)"
  shows "bind_edge binds (JDict e) = Inr (bind_one binds e)"
proof -
  from assms obtain s t where
    "map_of e ''source'' = Some s" "map_of e ''target'' = Some t"
    "hashable t" "hashable (target_param e)"
    by (auto simp: well_formed_edge_def split: option.splits)
  then show ?thesis
    by (simp add: bind_edge_def bind_one_def target_input_of_dict Let_def target_param_def)
qed

lemma build_binds_exact:
  assumes "\<forall>e \<in> set es. well_formed_edge (JDict e)"
  shows "build_binds (map JDict es) binds = Inr (foldl bind_one binds es)"
  using assms by (induction es arbitrary: binds) (simp_all add: bind_edge_exact)

text \<open>
  After one entry, the target's parameters are the ones it had, with the one
  parameter of the fallback chain bound to the source; other targets keep theirs.
\<close>

lemma bind_one_lookup:
  assumes "map_of e ''source'' = Some source" and "map_of e ''target'' = Some target"
  shows "pydict_get (bind_one binds e) t =
           (if key_eq target t
            then Some (pydict_set (case pydict_get binds target of None \<Rightarrow> [] | Some inner \<Rightarrow> inner)
                         (target_param e) source)
            else pydict_get binds t)"
  using assms by (simp add: bind_one_def pydict_get_set target_param_def)

text \<open>
  Claim C3. Take a description that gets as far as its edges (its nodes are
  resolved to \<open>funcs\<close>) and whose edge entries are mappings with a source and a
  target. Then the bindings \<^verbatim>\<open>json_to_dag\<close> hands to \<^verbatim>\<open>DAG(funcs, **binds)\<close> are
  exactly those of the edge entries taken in order, each entry binding, under its
  target, to its source the parameter named by its \<^verbatim>\<open>targetInput\<close> if it has that
  key, else by its \<^verbatim>\<open>sourceOutput\<close> if it has that key, else \<^verbatim>\<open>"value"\<close>; and
  the outcome of \<^verbatim>\<open>json_to_dag\<close> is the outcome of that call.
\<close>

theorem json_to_dag_binds_edges:
  assumes "map_of dag_config ''nodes'' = Some (JList ns)" and "ns \<noteq> []"
    and "build_funcs reg ns [] = Inr funcs"
    and "map_of dag_config ''edges'' = Some (JList (map JDict es))"
    and "\<forall>e \<in> set es. well_formed_edge (JDict e)"
  shows "json_to_dag reg lib dag_config =
           (case kwargs (bindings_of_edges es) of
              Inl x \<Rightarrow> Inl (Exn ValueError (Lit ''Error creating DAG: '' # str_exn x))
            | Inr kw \<Rightarrow>
                (case DAG lib funcs kw of
                   Inl x \<Rightarrow> Inl (Exn ValueError (Lit ''Error creating DAG: '' # str_exn x))
                 | Inr dag \<Rightarrow> Inr dag))"
proof -
  from assms(1,4) have
    "dict_get dag_config ''nodes'' (JList []) = JList ns"
    "dict_get dag_config ''edges'' (JList []) = JList (map JDict es)"
    by (simp_all add: dict_get_def)
  with assms(2,3) build_binds_exact[OF assms(5), of "[]"]
  have "json_to_dag reg lib dag_config = create_dag lib funcs (bindings_of_edges es)"
    by (simp add: json_to_dag_def bindings_of_edges_def)
  then show ?thesis
    by (simp add: create_dag_def split: sum.splits)
qed

text \<open>
  The chained example, whose edge has both \<^verbatim>\<open>targetInput\<close> and
  \<^verbatim>\<open>sourceOutput\<close>: the library is handed the two functions and, for
  \<^verbatim>\<open>multiply_step\<close>, the one binding of \<^verbatim>\<open>a\<close> to \<^verbatim>\<open>add_step\<close>.
\<close>

theorem json_to_dag_binds_edges_witness:
  "json_to_dag registry_with_add_multiply stub_lib chained_dag =
     Inr ([(JStr ''add_step'', add_func), (JStr ''multiply_step'', multiply_func)],
          [(''multiply_step'', [(JStr ''a'', JStr ''add_step'')])])"
proof -
  have g: "get_function registry_with_add_multiply (JStr ''add'') = Inr add_func"
          "get_function registry_with_add_multiply (JStr ''multiply'') = Inr multiply_func"
    by (simp_all add: get_function_def registry_with_add_multiply_def run_ops_def register_def
          init_registry_def extract_metadata_def add_func_def multiply_func_def Let_def)
  have f: "build_funcs registry_with_add_multiply
             [JDict [(''id'', JStr ''add_step''), (''function'', JStr ''add''),
                     (''output_name'', JStr ''sum'')],
              JDict [(''id'', JStr ''multiply_step''), (''function'', JStr ''multiply''),
                     (''output_name'', JStr ''product'')]] [] =
           Inr [(JStr ''add_step'', add_func), (JStr ''multiply_step'', multiply_func)]"
    by (simp add: g key_eq_def)
  have w: "\<forall>e \<in> set [chained_edge]. well_formed_edge (JDict e)"
    by (simp add: well_formed_edge_def chained_edge_def target_param_def)
  have b: "bindings_of_edges [chained_edge] =
             [(JStr ''multiply_step'', [(JStr ''a'', JStr ''add_step'')])]"
    by (simp add: bindings_of_edges_def bind_one_def chained_edge_def)
  have "json_to_dag registry_with_add_multiply stub_lib chained_dag =
           (case kwargs (bindings_of_edges [chained_edge]) of
              Inl x \<Rightarrow> Inl (Exn ValueError (Lit ''Error creating DAG: '' # str_exn x))
            | Inr kw \<Rightarrow>
                (case DAG stub_lib
                        [(JStr ''add_step'', add_func), (JStr ''multiply_step'', multiply_func)]
                        kw of
                   Inl x \<Rightarrow> Inl (Exn ValueError (Lit ''Error creating DAG: '' # str_exn x))
                 | Inr dag \<Rightarrow> Inr dag))"
    by (rule json_to_dag_binds_edges[OF _ _ f _ w]) (simp_all add: chained_dag_def)
  then show ?thesis
    by (simp add: b stub_lib_def)
qed

text \<open>
  The three edges in a row: the first binds \<^verbatim>\<open>a\<close>, the second \<^verbatim>\<open>sum\<close>, the
  third \<^verbatim>\<open>value\<close>.
\<close>

lemma bindings_of_edges_fallbacks:
  "bindings_of_edges [chained_edge, edge_without_target_input, bare_edge] =
     [(JStr ''multiply_step'',
       [(JStr ''a'', JStr ''add_step''), (JStr ''sum'', JStr ''add_step''),
        (JStr ''value'', JStr ''add_step'')])]"
  by (simp add: bindings_of_edges_def bind_one_def chained_edge_def
        edge_without_target_input_def bare_edge_def key_eq_def)

subsection \<open>A function that is not registered\<close>

lemma get_function_unknown:
  "hashable f \<Longrightarrow> table_lookup (reg_functions reg) f = None \<Longrightarrow>
   get_function reg f = Inl (not_found f)"
  by (simp add: get_function_def)

lemma get_function_known:
  "hashable f \<Longrightarrow> table_lookup (reg_functions reg) f = Some func \<Longrightarrow>
   get_function reg f = Inr func"
  by (simp add: get_function_def)

text \<open>
  The loop over the nodes stops at the first entry whose function is unknown, with
  the \<^verbatim>\<open>ValueError\<close> that names this function and this node.
\<close>

lemma build_funcs_unknown:
  assumes "\<forall>n \<in> set ns. well_formed_node n" and "\<exists>n \<in> set ns. unresolvable reg n"
  shows "\<exists>pre d post i f.
           ns = pre @ JDict d # post \<and>
           (\<forall>n \<in> set pre. \<not> unresolvable reg n) \<and>
           map_of d ''id'' = Some i \<and> map_of d ''function'' = Some f \<and>
           table_lookup (reg_functions reg) f = None \<and>
           build_funcs reg ns funcs = Inl (unknown_function f i)"
  using assms
proof (induction ns arbitrary: funcs)
  case Nil
  then show ?case by simp
next
  case (Cons n ns)
  from Cons.prems(1) obtain d i f where
    n: "n = JDict d" "map_of d ''id'' = Some i" "map_of d ''function'' = Some f"
       "hashable i" "hashable f"
    by (auto simp: well_formed_node_def split: json.splits option.splits)
  show ?case
  proof (cases "table_lookup (reg_functions reg) f")
    case None
    then have "build_funcs reg (n # ns) funcs = Inl (unknown_function f i)"
      using n by (simp add: get_function_unknown not_found_def)
    with n None have
      "n # ns = [] @ JDict d # ns \<and>
       (\<forall>n \<in> set []. \<not> unresolvable reg n) \<and>
       map_of d ''id'' = Some i \<and> map_of d ''function'' = Some f \<and>
       table_lookup (reg_functions reg) f = None \<and>
       build_funcs reg (n # ns) funcs = Inl (unknown_function f i)"
      by simp
    then show ?thesis by blast
  next
    case (Some func)
    then have step:
      "build_funcs reg (n # ns) funcs = build_funcs reg ns (pydict_set funcs i func)"
      using n by (simp add: get_function_known)
    from Some n have ok: "\<not> unresolvable reg n"
      by (simp add: unresolvable_def)
    with Cons.prems have "\<forall>n \<in> set ns. well_formed_node n" "\<exists>n \<in> set ns. unresolvable reg n"
      by auto
    from Cons.IH[OF this, of "pydict_set funcs i func"] obtain pre d' post i' f' where
      ih: "ns = pre @ JDict d' # post" "\<forall>n \<in> set pre. \<not> unresolvable reg n"
          "map_of d' ''id'' = Some i'" "map_of d' ''function'' = Some f'"
          "table_lookup (reg_functions reg) f' = None"
          "build_funcs reg ns (pydict_set funcs i func) = Inl (unknown_function f' i')"
      by blast
    from ih ok step have
      "n # ns = (n # pre) @ JDict d' # post \<and>
       (\<forall>n \<in> set (n # pre). \<not> unresolvable reg n) \<and>
       map_of d' ''id'' = Some i' \<and> map_of d' ''function'' = Some f' \<and>
       table_lookup (reg_functions reg) f' = None \<and>
       build_funcs reg (n # ns) funcs = Inl (unknown_function f' i')"
      by simp
    then show ?thesis by blast
  qed
qed

text \<open>
  Whatever the other entries are, a description with an entry that has an
  \<^verbatim>\<open>id\<close> and an unknown function is not built.
\<close>

lemma build_funcs_fails:
  assumes "JDict d \<in> set ns" and "map_of d ''id'' = Some i" and "map_of d ''function'' = Some f"
    and "table_lookup (reg_functions reg) f = None"
  shows "\<exists>e. build_funcs reg ns funcs = Inl e"
  using assms(1)
proof (induction ns arbitrary: funcs)
  case Nil
  then show ?case by simp
next
  case (Cons n ns)
  show ?case
  proof (cases "n = JDict d")
    case True
    with assms(2-4) show ?thesis
      by (cases "hashable f") (simp_all add: get_function_def)
  next
    case False
    with Cons.prems have "JDict d \<in> set ns" by simp
    from Cons.IH[OF this] show ?thesis
      by (auto split: sum.splits)
  qed
qed

lemma json_to_dag_unknown_function_fails:
  assumes "map_of dag_config ''nodes'' = Some (JList ns)"
    and "JDict d \<in> set ns" and "map_of d ''id'' = Some i" and "map_of d ''function'' = Some f"
    and "table_lookup (reg_functions reg) f = None"
  shows "\<exists>e. json_to_dag reg lib dag_config = Inl e"
proof -
  from assms(2) have "ns \<noteq> []" by auto
  moreover from assms(1) have "dict_get dag_config ''nodes'' (JList []) = JList ns"
    by (simp add: dict_get_def)
  moreover from build_funcs_fails[OF assms(2-5), of "[]"] obtain e where
    "build_funcs reg ns [] = Inl e" by blast
  ultimately show ?thesis
    by (simp add: json_to_dag_def)
qed

text \<open>
  Claim C6. Take a description whose node entries are mappings with an \<^verbatim>\<open>id\<close> and
  a \<^verbatim>\<open>function\<close>, one of them with a function that is not a name of the
  registry. Then \<^verbatim>\<open>json_to_dag\<close> raises \<^verbatim>\<open>ValueError\<close>, and its message is
  \<^verbatim>\<open>Function '<function>' not found in registry for node '<id>'\<close> with the function
  and the id of the first such entry.
\<close>

theorem json_to_dag_unknown_function:
  assumes "map_of dag_config ''nodes'' = Some (JList ns)"
    and "\<forall>n \<in> set ns. well_formed_node n"
    and "\<exists>n \<in> set ns. unresolvable reg n"
  shows "\<exists>pre d post node_id func_name.
           ns = pre @ JDict d # post \<and>
           (\<forall>n \<in> set pre. \<not> unresolvable reg n) \<and>
           map_of d ''id'' = Some node_id \<and>
           map_of d ''function'' = Some func_name \<and>
           table_lookup (reg_functions reg) func_name = None \<and>
           json_to_dag reg lib dag_config =
             Inl (Exn ValueError
                   [Lit (''Function '' @ squote), fmt func_name,
                    Lit (squote @ '' not found in registry for node '' @ squote), fmt node_id,
                    Lit squote])"
proof -
  from assms(3) have "ns \<noteq> []" by auto
  moreover from assms(1) have "dict_get dag_config ''nodes'' (JList []) = JList ns"
    by (simp add: dict_get_def)
  ultimately have "json_to_dag reg lib dag_config =
      (case build_funcs reg ns [] of
         Inl e \<Rightarrow> Inl e
       | Inr funcs \<Rightarrow>
           (case py_iter (dict_get dag_config ''edges'' (JList [])) of
              Inl e \<Rightarrow> Inl e
            | Inr es \<Rightarrow>
                (case build_binds es [] of
                   Inl e \<Rightarrow> Inl e
                 | Inr binds \<Rightarrow> create_dag lib funcs binds)))"
    by (simp add: json_to_dag_def)
  moreover from build_funcs_unknown[OF assms(2,3), of "[]"] obtain pre d post i f where
    "ns = pre @ JDict d # post" "\<forall>n \<in> set pre. \<not> unresolvable reg n"
    "map_of d ''id'' = Some i" "map_of d ''function'' = Some f"
    "table_lookup (reg_functions reg) f = None"
    "build_funcs reg ns [] = Inl (unknown_function f i)"
    by blast
  ultimately show ?thesis
    unfolding unknown_function_def by (simp del: append.simps) blast
qed

text \<open>\<^verbatim>\<open>test_dag_validation_invalid_function\<close>, on a registry that knows \<^verbatim>\<open>add\<close>.\<close>

theorem json_to_dag_unknown_function_witness:
  "json_to_dag registry_with_add stub_lib invalid_dag =
     Inl (Exn ValueError
           [Lit (''Function '' @ squote), Lit ''nonexistent'',
            Lit (squote @ '' not found in registry for node '' @ squote), Lit ''node1'',
            Lit squote])"
proof -
  have r: "reg_functions registry_with_add ''nonexistent'' = None"
    by (simp add: registry_with_add_def run_ops_def register_def init_registry_def
          extract_metadata_def add_func_def Let_def)
  have "\<exists>pre d post node_id func_name.
           [JDict [(''id'', JStr ''node1''), (''function'', JStr ''nonexistent'')]] =
             pre @ JDict d # post \<and>
           (\<forall>n \<in> set pre. \<not> unresolvable registry_with_add n) \<and>
           map_of d ''id'' = Some node_id \<and>
           map_of d ''function'' = Some func_name \<and>
           table_lookup (reg_functions registry_with_add) func_name = None \<and>
           json_to_dag registry_with_add stub_lib invalid_dag =
             Inl (Exn ValueError
                   [Lit (''Function '' @ squote), fmt func_name,
                    Lit (squote @ '' not found in registry for node '' @ squote), fmt node_id,
                    Lit squote])"
    by (rule json_to_dag_unknown_function)
       (simp_all add: invalid_dag_def well_formed_node_def unresolvable_def r)
  then obtain pre d post node_id func_name where
    w: "[JDict [(''id'', JStr ''node1''), (''function'', JStr ''nonexistent'')]] =
          pre @ JDict d # post"
       "map_of d ''id'' = Some node_id" "map_of d ''function'' = Some func_name"
       "json_to_dag registry_with_add stub_lib invalid_dag =
             Inl (Exn ValueError
                   [Lit (''Function '' @ squote), fmt func_name,
                    Lit (squote @ '' not found in registry for node '' @ squote), fmt node_id,
                    Lit squote])"
    by blast
  from w(1) have "d = [(''id'', JStr ''node1''), (''function'', JStr ''nonexistent'')]"
    by (auto simp: append_eq_Cons_conv Cons_eq_append_conv)
  with w(2,3) have "node_id = JStr ''node1''" "func_name = JStr ''nonexistent''"
    by simp_all
  with w(4) show ?thesis
    by simp
qed

section \<open>Running a description\<close>

text \<open>
  Claim C9. \<^verbatim>\<open>execute_from_config\<close> returns a mapping for every registry, every
  behaviour of the library, every description and every input: either
  \<^verbatim>\<open>status = "success"\<close> with a \<^verbatim>\<open>result\<close>, or \<^verbatim>\<open>status = "error"\<close> with the
  text of the exception under \<^verbatim>\<open>error\<close>; in both, \<^verbatim>\<open>dag_name\<close> is the
  description's \<^verbatim>\<open>name\<close>, or \<^verbatim>\<open>"unnamed"\<close> when the description has none. No
  shape of the description is excluded: a node entry without \<^verbatim>\<open>id\<close> or
  \<^verbatim>\<open>function\<close>, or nodes that are no list, end in the error mapping.
\<close>

theorem execute_from_config_status:
  "(\<exists>result. execute_from_config reg lib dag_config inputs =
      [(''status'', Val (JStr ''success'')),
       (''result'', Val result),
       (''dag_name'',
        Val (case map_of dag_config ''name'' of Some n \<Rightarrow> n | None \<Rightarrow> JStr ''unnamed''))])
   \<or>
   (\<exists>message. execute_from_config reg lib dag_config inputs =
      [(''status'', Val (JStr ''error'')),
       (''error'', Text message),
       (''dag_name'',
        Val (case map_of dag_config ''name'' of Some n \<Rightarrow> n | None \<Rightarrow> JStr ''unnamed''))])"
  by (simp add: execute_from_config_def error_result_def dict_get_def split: sum.splits)

text \<open>
  A node entry without \<^verbatim>\<open>id\<close>, in a description without a name: the
  \<^verbatim>\<open>KeyError\<close> of \<^verbatim>\<open>node["id"]\<close> is reported, under the name \<^verbatim>\<open>"unnamed"\<close>.
\<close>

theorem execute_from_config_status_witness:
  "execute_from_config registry_with_add stub_lib node_without_id [] =
     [(''status'', Val (JStr ''error'')),
      (''error'', Text [Repr [Lit ''id'']]),
      (''dag_name'', Val (JStr ''unnamed''))]"
proof -
  have "json_to_dag registry_with_add stub_lib node_without_id =
          Inl (Exn KeyError [Repr [Lit ''id'']])"
    by (simp add: json_to_dag_def node_without_id_def dict_get_def)
  then have e: "execute_from_config registry_with_add stub_lib node_without_id [] =
      error_result (Exn KeyError [Repr [Lit ''id'']]) node_without_id"
    by (simp add: execute_from_config_def)
  have n: "map_of node_without_id ''name'' = None"
    by (simp add: node_without_id_def)
  from execute_from_config_status[of registry_with_add stub_lib node_without_id "[]"]
  show ?thesis
    by (simp add: e n error_result_def)
qed

text \<open>\<^verbatim>\<open>test_execute_from_config_error_handling\<close>.\<close>

lemma execute_from_config_error_dag:
  "execute_from_config registry_with_add stub_lib error_dag [] =
     [(''status'', Val (JStr ''error'')),
      (''error'',
       Text [Lit (''Function '' @ squote), Lit ''nonexistent'',
             Lit (squote @ '' not found in registry for node '' @ squote), Lit ''node1'',
             Lit squote]),
      (''dag_name'', Val (JStr ''error_dag''))]"
proof -
  have "get_function registry_with_add (JStr ''nonexistent'') =
          Inl (not_found (JStr ''nonexistent''))"
    by (simp add: get_function_def registry_with_add_def run_ops_def register_def
          init_registry_def extract_metadata_def add_func_def Let_def)
  then have "json_to_dag registry_with_add stub_lib error_dag =
          Inl (unknown_function (JStr ''nonexistent'') (JStr ''node1''))"
    by (simp add: json_to_dag_def error_dag_def dict_get_def not_found_def)
  then show ?thesis
    by (simp add: execute_from_config_def error_result_def unknown_function_def
          error_dag_def dict_get_def)
qed

text \<open>
  The status is \<^verbatim>\<open>"success"\<close> exactly when the graph was built and its call
  returned.
\<close>

lemma execute_from_config_success_iff:
  "(\<exists>rest. execute_from_config reg lib dag_config inputs =
             (''status'', Val (JStr ''success'')) # rest) \<longleftrightarrow>
   (\<exists>dag result. json_to_dag reg lib dag_config = Inr dag \<and>
                  call_dag lib dag inputs = Inr result)"
  by (auto simp: execute_from_config_def execute_dag_def error_result_def split: sum.splits)


section \<open>The two tables of the registry\<close>

lemma same_names_init: "same_names init_registry"
  by (simp add: same_names_def init_registry_def)

lemma register_rejects_duplicate:
  "reg_functions self name \<noteq> None \<Longrightarrow>
   register self name func False =
     (Some (Exn ValueError
        [Lit (''Function '' @ squote), Lit name,
         Lit (squote @ '' already registered. Use override=True to replace.'')]), self)"
  by (simp add: register_def)

lemma register_adds:
  assumes "extract_metadata name func = Inr m"
    and "reg_functions self name = None \<or> override"
  shows "register self name func override =
           (None, self\<lparr>reg_functions := (reg_functions self)(name \<mapsto> func),
                        reg_metadata := (reg_metadata self)(name \<mapsto> m)\<rparr>)"
  using assms by (auto simp: register_def Let_def)

text \<open>
  When \<^verbatim>\<open>_extract_metadata\<close> raises, the function is stored already and the
  metadata is not: the exception leaves the name in the function table alone.
\<close>

lemma register_extraction_error:
  assumes "extract_metadata name func = Inl e"
    and "reg_functions self name = None \<or> override"
  shows "register self name func override =
           (Some e, self\<lparr>reg_functions := (reg_functions self)(name \<mapsto> func)\<rparr>)"
  using assms by (auto simp: register_def Let_def)

text \<open>
  Whatever part of the extraction raises (\<^verbatim>\<open>Sig(func)\<close>, the lookup
  \<^verbatim>\<open>sig.params[param_name]\<close> or the comparison of a default), a new name is then
  known to \<^verbatim>\<open>get_function\<close> and unknown to \<^verbatim>\<open>get_metadata\<close>.
\<close>

lemma register_extraction_error_lookups:
  assumes "extract_metadata name func = Inl e"
    and "reg_functions self name = None" and "reg_metadata self name = None"
  shows "get_function (snd (register self name func override)) (JStr name) = Inr func \<and>
         get_metadata (snd (register self name func override)) (JStr name) =
           Inl (not_found (JStr name))"
  using assms by (simp add: register_def Let_def get_function_def get_metadata_def)

lemma register_same_names:
  assumes "same_names self" and "extract_metadata name func = Inr m"
  shows "same_names (snd (register self name func override))"
  using assms by (auto simp: register_def Let_def same_names_def)

lemma unregister_removes:
  assumes "same_names self" and "reg_functions self name \<noteq> None"
  shows "unregister self name =
           (None, self\<lparr>reg_functions := (reg_functions self)(name := None),
                        reg_metadata := (reg_metadata self)(name := None)\<rparr>)"
proof -
  from assms have "reg_metadata self name \<noteq> None"
    by (auto simp: same_names_def)
  with assms show ?thesis
    by (simp add: unregister_def Let_def)
qed

lemma unregister_unknown:
  "reg_functions self name = None \<Longrightarrow>
   unregister self name = (Some (not_found (JStr name)), self)"
  by (simp add: unregister_def)

lemma unregister_same_names:
  assumes "same_names self"
  shows "same_names (snd (unregister self name))"
proof (cases "reg_functions self name")
  case None
  then show ?thesis using assms by (simp add: unregister_unknown)
next
  case (Some f)
  then show ?thesis
    using assms unregister_removes[OF assms, of name]
    by (auto simp: same_names_def)
qed

lemma apply_op_same_names:
  "same_names self \<Longrightarrow> metadata_extracted op \<Longrightarrow> same_names (apply_op self op)"
  by (cases op) (auto simp: register_same_names unregister_same_names split: sum.splits)

lemma foldl_same_names:
  "same_names self \<Longrightarrow> \<forall>op \<in> set ops. metadata_extracted op \<Longrightarrow>
   same_names (foldl apply_op self ops)"
  by (induction ops arbitrary: self) (auto simp: apply_op_same_names)

lemma lookup_same_names:
  assumes "same_names self"
  shows "(\<exists>f. get_function self name = Inr f) \<longleftrightarrow> (\<exists>m. get_metadata self name = Inr m)"
proof (cases name)
  case (JStr s)
  from assms have "reg_functions self s = None \<longleftrightarrow> reg_metadata self s = None"
    by (auto simp: same_names_def)
  with JStr show ?thesis
    by (auto simp: get_function_def get_metadata_def split: option.splits)
qed (simp_all add: get_function_def get_metadata_def)

text \<open>
  As long as no \<^verbatim>\<open>register\<close> call raises out of \<^verbatim>\<open>_extract_metadata\<close>, the two
  tables have the same names after any sequence of calls on a new registry, and
  \<^verbatim>\<open>get_function\<close> returns for exactly the names for which \<^verbatim>\<open>get_metadata\<close>
  returns.
\<close>

lemma run_ops_same_names:
  assumes "\<forall>op \<in> set ops. metadata_extracted op"
  shows "dom (reg_functions (run_ops ops)) = dom (reg_metadata (run_ops ops)) \<and>
         (\<forall>name. (\<exists>f. get_function (run_ops ops) name = Inr f) \<longleftrightarrow>
                 (\<exists>m. get_metadata (run_ops ops) name = Inr m))"
proof -
  have inv: "same_names (run_ops ops)"
    unfolding run_ops_def using same_names_init assms by (rule foldl_same_names)
  then have "dom (reg_functions (run_ops ops)) = dom (reg_metadata (run_ops ops))"
    by (simp add: same_names_def)
  with lookup_same_names[OF inv] show ?thesis
    by blast
qed

text \<open>
  Claim C10. The two tables are meant to hold the same names, and every path of
  \<^verbatim>\<open>register\<close> and \<^verbatim>\<open>unregister\<close> keeps them so but one: \<^verbatim>\<open>register\<close> stores
  the function before it extracts the metadata, and an exception of the
  extraction leaves the function stored. Registering the function with the
  uncomparable default on a new registry raises its \<^verbatim>\<open>TypeError\<close>; afterwards
  \<^verbatim>\<open>get_function("f")\<close> returns the function and \<^verbatim>\<open>get_metadata("f")\<close> raises
  \<^verbatim>\<open>KeyError\<close>.
\<close>

theorem register_failure_leaves_function:
  "fst (register init_registry ''f'' uncomparable_default_func False) =
     Some (Exn TypeError [Lit ''cannot compare'']) \<and>
   get_function (snd (register init_registry ''f'' uncomparable_default_func False)) (JStr ''f'') =
     Inr uncomparable_default_func \<and>
   get_metadata (snd (register init_registry ''f'' uncomparable_default_func False)) (JStr ''f'') =
     Inl (not_found (JStr ''f'')) \<and>
   dom (reg_functions (snd (register init_registry ''f'' uncomparable_default_func False))) \<noteq>
     dom (reg_metadata (snd (register init_registry ''f'' uncomparable_default_func False)))"
proof -
  have x: "extract_metadata ''f'' uncomparable_default_func =
             Inl (Exn TypeError [Lit ''cannot compare''])"
    by (simp add: extract_metadata_def uncomparable_default_func_def)
  have "register init_registry ''f'' uncomparable_default_func False =
          (Some (Exn TypeError [Lit ''cannot compare'']),
           init_registry\<lparr>reg_functions :=
             (reg_functions init_registry)(''f'' \<mapsto> uncomparable_default_func)\<rparr>)"
    using x by (rule register_extraction_error) (simp add: init_registry_def)
  then show ?thesis
    by (simp add: get_function_def get_metadata_def init_registry_def)
qed

text \<open>
  \<^verbatim>\<open>add\<close> is registered, \<^verbatim>\<open>temp\<close> is registered and removed, and a second
  \<^verbatim>\<open>register("add", ...)\<close> is refused: both tables hold \<^verbatim>\<open>add\<close> and nothing
  else.
\<close>

lemma run_ops_same_names_example:
  "dom (reg_functions (run_ops [Register ''add'' add_func False, Register ''temp'' temp_func False,
                                Unregister ''temp'', Register ''add'' temp_func False])) = {''add''} \<and>
   dom (reg_metadata (run_ops [Register ''add'' add_func False, Register ''temp'' temp_func False,
                               Unregister ''temp'', Register ''add'' temp_func False])) = {''add''}"
proof -
  have h: "\<forall>op \<in> set [Register ''add'' add_func False, Register ''temp'' temp_func False,
                       Unregister ''temp'', Register ''add'' temp_func False].
             metadata_extracted op"
    by (simp add: extract_metadata_def add_func_def temp_func_def)
  have f: "dom (reg_functions (run_ops [Register ''add'' add_func False,
              Register ''temp'' temp_func False, Unregister ''temp'',
              Register ''add'' temp_func False])) = {''add''}"
    by (simp add: run_ops_def register_def unregister_def init_registry_def
          extract_metadata_def add_func_def temp_func_def Let_def)
  from run_ops_same_names[OF h] f show ?thesis
    by simp
qed

section \<open>What the service leaves to the library\<close>

text \<open>
  The loops of \<^verbatim>\<open>json_to_dag\<close> look at each entry on its own. The loop over the
  edges does not see the nodes: it accepts every list of well-formed edges,
  whatever their sources and targets are.
\<close>

lemma bind_edge_well_formed:
  assumes "well_formed_edge edge"
  shows "\<exists>binds'. bind_edge binds edge = Inr binds'"
proof -
  from assms obtain e s t where
    "edge = JDict e" "map_of e ''source'' = Some s" "map_of e ''target'' = Some t"
    "hashable t" "hashable (target_param e)"
    by (auto simp: well_formed_edge_def split: json.splits option.splits)
  then show ?thesis
    by (simp add: bind_edge_def target_input_of_dict Let_def)
qed

lemma build_binds_well_formed:
  assumes "\<forall>edge \<in> set es. well_formed_edge edge"
  shows "\<exists>binds'. build_binds es binds = Inr binds'"
  using assms
proof (induction es arbitrary: binds)
  case Nil
  then show ?case by simp
next
  case (Cons edge es)
  then obtain mid where "bind_edge binds edge = Inr mid"
    using bind_edge_well_formed[of edge binds] by auto
  with Cons show ?case by simp
qed

lemma build_funcs_resolved:
  assumes "\<forall>n \<in> set ns. well_formed_node n \<and> \<not> unresolvable reg n"
  shows "\<exists>funcs'. build_funcs reg ns funcs = Inr funcs'"
  using assms
proof (induction ns arbitrary: funcs)
  case Nil
  then show ?case by simp
next
  case (Cons n ns)
  then obtain d i f func where
    "n = JDict d" "map_of d ''id'' = Some i" "map_of d ''function'' = Some f"
    "hashable i" "hashable f" "table_lookup (reg_functions reg) f = Some func"
    by (auto simp: well_formed_node_def unresolvable_def split: json.splits option.splits)
  then have "build_funcs reg (n # ns) funcs = build_funcs reg ns (pydict_set funcs i func)"
    by (simp add: get_function_known)
  with Cons show ?case by simp
qed

text \<open>
  On a description with at least one node, all nodes well formed and resolved, all
  edges well formed, the outcome of \<^verbatim>\<open>json_to_dag\<close> is the outcome of
  \<^verbatim>\<open>DAG(funcs, **binds)\<close>: the service itself compares no edge with the nodes and
  follows no path through the edges.
\<close>

lemma json_to_dag_delegates:
  assumes "map_of dag_config ''nodes'' = Some (JList ns)" and "ns \<noteq> []"
    and "\<forall>n \<in> set ns. well_formed_node n \<and> \<not> unresolvable reg n"
    and "map_of dag_config ''edges'' = Some (JList es)"
    and "\<forall>edge \<in> set es. well_formed_edge edge"
  shows "\<exists>funcs binds.
           build_funcs reg ns [] = Inr funcs \<and>
           build_binds es [] = Inr binds \<and>
           json_to_dag reg lib dag_config = create_dag lib funcs binds"
proof -
  from build_funcs_resolved[OF assms(3), of "[]"] obtain funcs where
    f: "build_funcs reg ns [] = Inr funcs" by blast
  from build_binds_well_formed[OF assms(5), of "[]"] obtain binds where
    b: "build_binds es [] = Inr binds" by blast
  from assms(1,4) have
    "dict_get dag_config ''nodes'' (JList []) = JList ns"
    "dict_get dag_config ''edges'' (JList []) = JList es"
    by (simp_all add: dict_get_def)
  with assms(2) f b have "json_to_dag reg lib dag_config = create_dag lib funcs binds"
    by (simp add: json_to_dag_def)
  with f b show ?thesis by blast
qed

text \<open>
  Whatever the constructor raises comes out of \<^verbatim>\<open>json_to_dag\<close> as a
  \<^verbatim>\<open>ValueError\<close>, and whatever the call of the graph raises comes out of
  \<^verbatim>\<open>execute_dag\<close> as a \<^verbatim>\<open>RuntimeError\<close>; the service has no other class for a
  failure of the library.
\<close>

lemma create_dag_error:
  "create_dag lib funcs binds = Inl e \<Longrightarrow>
   \<exists>m. e = Exn ValueError (Lit ''Error creating DAG: '' # m)"
  by (auto simp: create_dag_def split: sum.splits)

lemma execute_dag_error:
  "execute_dag lib dag inputs = Inl e \<Longrightarrow>
   \<exists>m. e = Exn RuntimeError (Lit ''DAG execution failed: '' # m)"
  by (auto simp: execute_dag_def split: sum.splits)

lemma execute_dag_result:
  "execute_dag lib dag inputs = Inr result \<longleftrightarrow> call_dag lib dag inputs = Inr result"
  by (auto simp: execute_dag_def split: sum.splits)

text \<open>
  The description of \<^verbatim>\<open>test_simple_dag_execution\<close>: the service hands the
  library the one function under the node's id and no bindings, then the inputs
  as they are; the result it reports is the one the library returns.
\<close>

lemma execute_from_config_simple_dag:
  assumes "DAG lib [(JStr ''add_node'', add_func)] [] = Inr dag"
    and "call_dag lib dag inputs = Inr result"
  shows "execute_from_config registry_with_add lib simple_dag inputs =
           [(''status'', Val (JStr ''success'')),
            (''result'', Val result),
            (''dag_name'', Val (JStr ''simple_add_dag''))]"
proof -
  have "get_function registry_with_add (JStr ''add'') = Inr add_func"
    by (simp add: get_function_def registry_with_add_def run_ops_def register_def
          init_registry_def extract_metadata_def add_func_def Let_def)
  then have "json_to_dag registry_with_add lib simple_dag =
               create_dag lib [(JStr ''add_node'', add_func)] []"
    by (simp add: json_to_dag_def simple_dag_def dict_get_def)
  with assms(1) have "json_to_dag registry_with_add lib simple_dag = Inr dag"
    by (simp add: create_dag_def)
  with assms(2) show ?thesis
    by (simp add: execute_from_config_def execute_dag_def simple_dag_def dict_get_def)
qed

end
